theory Spec2Isabelle
  imports Complex_Main
begin

section \<open>JavaScript values\<close>

text \<open>
  The alert payloads, the rule files and the step results of mini-SOAR are JSON documents,
  so a value is \<open>undefined\<close>, \<open>null\<close>, a boolean, a number, a string, an array or an
  object. An object is the list of its own properties in enumeration order (what
  \<open>Object.keys\<close> returns), without duplicate keys. Numbers are the integers (the event
  counts, thresholds and scores the program handles); fractions, \<open>NaN\<close> and the infinities
  are not stored values. \<open>NaN\<close> as the result of a conversion is \<open>None\<close>. A character is
  one code unit below 256. Members inherited from the built-in prototypes
  (\<open>constructor\<close>, \<open>toString\<close>, ...) are not properties of a modelled object.
\<close>

datatype jsval =
    JUndefined
  | JNull
  | JBool bool
  | JNum int
  | JStr string
  | JArr "jsval list"
  | JObj "(string \<times> jsval) list"

datatype jserror = TypeError

definition isNullish :: "jsval \<Rightarrow> bool" where
  "isNullish v = (v = JUndefined \<or> v = JNull)"

fun truthy :: "jsval \<Rightarrow> bool" where
  "truthy JUndefined = False"
| "truthy JNull = False"
| "truthy (JBool b) = b"
| "truthy (JNum n) = (n \<noteq> 0)"
| "truthy (JStr s) = (s \<noteq> [])"
| "truthy (JArr xs) = True"
| "truthy (JObj kvs) = True"

text \<open>\<open>a || b\<close>, and a chain \<open>a || b || ... || z\<close>: the first truthy operand, else the last.\<close>

definition jsOr :: "jsval \<Rightarrow> jsval \<Rightarrow> jsval" where
  "jsOr a b = (if truthy a then a else b)"

fun jsOrs :: "jsval list \<Rightarrow> jsval" where
  "jsOrs [] = JUndefined"
| "jsOrs [x] = x"
| "jsOrs (x # y # ys) = (if truthy x then x else jsOrs (y # ys))"

subsection \<open>Numbers and strings\<close>

definition digitChar :: "nat \<Rightarrow> char" where
  "digitChar d = char_of (48 + d)"

function showNat :: "nat \<Rightarrow> string" where
  "showNat n = (if n < 10 then [digitChar n] else showNat (n div 10) @ [digitChar (n mod 10)])"
  by pat_completeness auto
termination
  by (relation "measure id") auto

declare showNat.simps [simp del]

definition showInt :: "int \<Rightarrow> string" where
  "showInt i = (if i < 0 then CHR ''-'' # showNat (nat (- i)) else showNat (nat i))"

definition isDigit :: "char \<Rightarrow> bool" where
  "isDigit c = (48 \<le> (of_char c :: nat) \<and> (of_char c :: nat) \<le> 57)"

definition digitVal :: "char \<Rightarrow> nat" where
  "digitVal c = of_char c - 48"

definition digitsVal :: "string \<Rightarrow> nat" where
  "digitsVal ds = foldl (\<lambda>acc c. 10 * acc + digitVal c) 0 ds"

text \<open>White space of \<open>trim\<close>, \<open>parseInt\<close>, \<open>parseFloat\<close> and \<open>\s\<close>: tab, line feed,
  vertical tab, form feed, carriage return, space, no-break space.\<close>

definition isSpaceJs :: "char \<Rightarrow> bool" where
  "isSpaceJs c = ((of_char c :: nat) \<in> {9, 10, 11, 12, 13, 32, 160})"

definition trim :: "string \<Rightarrow> string" where
  "trim s = rev (dropWhile isSpaceJs (rev (dropWhile isSpaceJs s)))"

fun joinWith :: "string \<Rightarrow> string list \<Rightarrow> string" where
  "joinWith sep [] = []"
| "joinWith sep [x] = x"
| "joinWith sep (x # y # ys) = x @ sep @ joinWith sep (y # ys)"

text \<open>\<open>String(v)\<close>, template interpolation and property-key conversion. An array joins its
  elements with commas, \<open>null\<close> and \<open>undefined\<close> elements giving the empty string.\<close>

fun toStringJs :: "jsval \<Rightarrow> string" where
  "toStringJs JUndefined = ''undefined''"
| "toStringJs JNull = ''null''"
| "toStringJs (JBool b) = (if b then ''true'' else ''false'')"
| "toStringJs (JNum n) = showInt n"
| "toStringJs (JStr s) = s"
| "toStringJs (JArr xs) =
     joinWith '','' (map (\<lambda>x. if x = JNull \<or> x = JUndefined then [] else toStringJs x) xs)"
| "toStringJs (JObj kvs) = ''[object Object]''"

definition startsWith :: "string \<Rightarrow> string \<Rightarrow> bool" where
  "startsWith s t = (take (length t) s = t)"

fun includesStr :: "string \<Rightarrow> string \<Rightarrow> bool" where
  "includesStr [] t = (t = [])"
| "includesStr (c # cs) t = (startsWith (c # cs) t \<or> includesStr cs t)"

text \<open>\<open>s.split(sep)\<close> for a one-character separator.\<close>

fun splitOn :: "char \<Rightarrow> string \<Rightarrow> string list" where
  "splitOn sep [] = [[]]"
| "splitOn sep (c # cs) =
     (if c = sep then [] # splitOn sep cs
      else (case splitOn sep cs of [] \<Rightarrow> [[c]] | w # ws \<Rightarrow> (c # w) # ws))"

text \<open>\<open>parseInt(v, 10)\<close>: the argument is converted to a string; leading white space and
  one sign are skipped; the longest run of decimal digits is read; no digit gives \<open>NaN\<close>.\<close>

definition parseInt10 :: "string \<Rightarrow> int option" where
  "parseInt10 s =
     (let s1 = dropWhile isSpaceJs s;
          neg = (s1 \<noteq> [] \<and> hd s1 = CHR ''-'');
          s2 = (if s1 \<noteq> [] \<and> (hd s1 = CHR ''-'' \<or> hd s1 = CHR ''+'') then tl s1 else s1);
          ds = takeWhile isDigit s2
      in if ds = [] then None
         else Some (if neg then - int (digitsVal ds) else int (digitsVal ds)))"

definition parseInt :: "jsval \<Rightarrow> int option" where
  "parseInt v = parseInt10 (toStringJs v)"

text \<open>The decimal literal at the head of a string: digits, an optional fraction, an optional
  exponent (only when a digit follows it). The result is the value and the rest of the
  string. The literal \<open>Infinity\<close> and hexadecimal, octal and binary literals are not
  modelled: they read as \<open>NaN\<close>. Values are exact rationals, not rounded to doubles.\<close>

definition pow10 :: "int \<Rightarrow> rat" where
  "pow10 e = (if e < 0 then 1 / (10 ^ nat (- e)) else 10 ^ nat e)"

definition readDecimal :: "string \<Rightarrow> (rat \<times> string) option" where
  "readDecimal s =
     (let neg = (s \<noteq> [] \<and> hd s = CHR ''-'');
          s1 = (if s \<noteq> [] \<and> (hd s = CHR ''-'' \<or> hd s = CHR ''+'') then tl s else s);
          ip = takeWhile isDigit s1;
          r1 = dropWhile isDigit s1;
          hasDot = (r1 \<noteq> [] \<and> hd r1 = CHR ''.'');
          fp = (if hasDot then takeWhile isDigit (tl r1) else []);
          r2 = (if hasDot then dropWhile isDigit (tl r1) else r1);
          hasE = (r2 \<noteq> [] \<and> (hd r2 = CHR ''e'' \<or> hd r2 = CHR ''E''));
          r3 = (if hasE then tl r2 else r2);
          eneg = (hasE \<and> r3 \<noteq> [] \<and> hd r3 = CHR ''-'');
          r4 = (if hasE \<and> r3 \<noteq> [] \<and> (hd r3 = CHR ''-'' \<or> hd r3 = CHR ''+'') then tl r3 else r3);
          ed = (if hasE then takeWhile isDigit r4 else []);
          rest = (if ed = [] then r2 else dropWhile isDigit r4);
          ex = (if eneg then - int (digitsVal ed) else int (digitsVal ed));
          mant = of_nat (digitsVal (ip @ fp)) * pow10 (ex - int (length fp))
      in if ip = [] \<and> fp = [] then None
         else Some (if neg then - mant else mant, rest))"

text \<open>\<open>parseFloat(v)\<close>: the longest numeric prefix of the string of \<open>v\<close>.\<close>

definition parseFloat :: "jsval \<Rightarrow> rat option" where
  "parseFloat v = map_option fst (readDecimal (dropWhile isSpaceJs (toStringJs v)))"



subsection \<open>Properties\<close>

text \<open>The index an array or string property key denotes, if it is one within bounds.\<close>

definition arrayIndex :: "string \<Rightarrow> nat \<Rightarrow> nat option" where
  "arrayIndex k n = find (\<lambda>i. showNat i = k) [0..<n]"

text \<open>\<open>v[k]\<close> for a value that is neither \<open>null\<close> nor \<open>undefined\<close> (on those the read
  throws, which every caller below checks first).\<close>

fun getProp :: "jsval \<Rightarrow> string \<Rightarrow> jsval" where
  "getProp (JObj kvs) k = (case map_of kvs k of Some v \<Rightarrow> v | None \<Rightarrow> JUndefined)"
| "getProp (JArr xs) k =
     (if k = ''length'' then JNum (int (length xs))
      else (case arrayIndex k (length xs) of Some i \<Rightarrow> xs ! i | None \<Rightarrow> JUndefined))"
| "getProp (JStr s) k =
     (if k = ''length'' then JNum (int (length s))
      else (case arrayIndex k (length s) of Some i \<Rightarrow> JStr [s ! i] | None \<Rightarrow> JUndefined))"
| "getProp v k = JUndefined"

text \<open>\<open>v?.k\<close>\<close>

definition optProp :: "jsval \<Rightarrow> string \<Rightarrow> jsval" where
  "optProp v k = (if isNullish v then JUndefined else getProp v k)"

text \<open>\<open>typeof v === 'object'\<close> (true of \<open>null\<close> as well) and \<open>k in v\<close> for an object.\<close>

fun isObjectType :: "jsval \<Rightarrow> bool" where
  "isObjectType JNull = True"
| "isObjectType (JArr xs) = True"
| "isObjectType (JObj kvs) = True"
| "isObjectType v = False"

fun hasProp :: "jsval \<Rightarrow> string \<Rightarrow> bool" where
  "hasProp (JObj kvs) k = (k \<in> set (map fst kvs))"
| "hasProp (JArr xs) k = (k = ''length'' \<or> arrayIndex k (length xs) \<noteq> None)"
| "hasProp v k = False"

text \<open>\<open>Object.keys(v)\<close>\<close>

fun objectKeys :: "jsval \<Rightarrow> string list" where
  "objectKeys (JObj kvs) = map fst kvs"
| "objectKeys (JArr xs) = map showNat [0..<length xs]"
| "objectKeys (JStr s) = map showNat [0..<length s]"
| "objectKeys v = []"

text \<open>\<open>a === b\<close>. Two objects or arrays are equal only when they are the same object;
  the alert and the rules come from separate documents, so they never are.\<close>

fun strictEq :: "jsval \<Rightarrow> jsval \<Rightarrow> bool" where
  "strictEq (JArr xs) b = False"
| "strictEq (JObj kvs) b = False"
| "strictEq a b = (a = b)"

section \<open>Normalizer (lib/normalize.js)\<close>

record alert =
  type :: jsval
  severity :: jsval
  machine :: jsval
  src_ip :: jsval
  user :: jsval
  event_count :: int
  timestamp :: jsval
  raw :: jsval

text \<open>The normalized alert as the object the rule engines index by field name.\<close>

definition alertObj :: "alert \<Rightarrow> jsval" where
  "alertObj a = JObj
     [(''type'', type a), (''severity'', severity a), (''machine'', machine a),
      (''src_ip'', src_ip a), (''user'', user a), (''event_count'', JNum (event_count a)),
      (''timestamp'', timestamp a), (''raw'', raw a)]"

text \<open>The object literal of lines 11 to 20, with the repair of lines 23 to 25 applied to
  \<open>event_count\<close> (a record field holds no \<open>NaN\<close>): an \<open>event_count\<close> that is \<open>NaN\<close> or
  negative becomes 1.\<close>

definition normalizedFields :: "jsval \<Rightarrow> alert" where
  "normalizedFields alertJson =
     (let data = jsOr (getProp alertJson ''result'') alertJson;
          count = parseInt (jsOrs [getProp data ''event_count'', getProp data ''count'',
                                   getProp data ''events'', JNum 1])
      in \<lparr>type = jsOrs [getProp data ''type'', getProp data ''alert_type'',
                        optProp (getProp data ''_raw'') ''type'', JNull],
          severity = jsOrs [getProp data ''severity'', getProp data ''priority'',
                            getProp data ''level'', JStr ''Medium''],
          machine = jsOrs [getProp data ''machine'', getProp data ''hostname'',
                           getProp data ''host'', getProp data ''computer'', JNull],
          src_ip = jsOrs [getProp data ''src_ip'', getProp data ''source_ip'',
                          getProp data ''src'', getProp data ''source'', getProp data ''ip'',
                          JNull],
          user = jsOrs [getProp data ''user'', getProp data ''username'',
                        getProp data ''account'', JNull],
          event_count = (case count of None \<Rightarrow> 1 | Some n \<Rightarrow> if n < 0 then 1 else n),
          timestamp = jsOrs [getProp data ''timestamp'', getProp data ''_time'',
                             getProp data ''time'', getProp data ''event_time'', JNull],
          raw = alertJson\<rparr>)"

text \<open>\<open>alertJson.result\<close> throws on \<open>null\<close> and \<open>undefined\<close>. \<open>normalized.severity.trim()\<close>
  is reached whenever the severity is truthy, and throws unless it is a string.\<close>

definition normalizeSplunkAlert :: "jsval \<Rightarrow> jserror + alert" where
  "normalizeSplunkAlert alertJson =
     (if isNullish alertJson then Inl TypeError
      else
        let normalized = normalizedFields alertJson
        in if \<not> truthy (severity normalized)
           then Inr (normalized\<lparr>severity := JStr ''Medium''\<rparr>)
           else (case severity normalized of
                   JStr s \<Rightarrow>
                     if trim s = [] then Inr (normalized\<lparr>severity := JStr ''Medium''\<rparr>)
                     else Inr normalized
                 | _ \<Rightarrow> Inl TypeError))"

section \<open>Rule engines\<close>

text \<open>
  A log line is one of three template strings; the model keeps the interpolated values:
  \<open>Matched rule: ${rule.name}\<close>, \<open>Action executed: ${actionName}\<close> with
  \<open>(${paramValue})\<close> appended when the parameter value is truthy, and
  \<open>No rule matched.\<close>
\<close>

datatype log_line =
    MatchedRule jsval
  | ActionExecuted jsval "jsval option"
  | NoRuleMatched

record eval_result =
  logs :: "log_line list"
  matches :: "jsval list"

text \<open>A loop body that may throw, run over an array in order.\<close>

fun mapE :: "('a \<Rightarrow> jserror + 'b) \<Rightarrow> 'a list \<Rightarrow> jserror + 'b list" where
  "mapE f [] = Inr []"
| "mapE f (x # xs) =
     (case f x of
        Inl e \<Rightarrow> Inl e
      | Inr y \<Rightarrow> (case mapE f xs of Inl e \<Rightarrow> Inl e | Inr ys \<Rightarrow> Inr (y # ys)))"

fun rulesLoop ::
  "(jsval \<Rightarrow> eval_result \<Rightarrow> jserror + eval_result) \<Rightarrow> jsval list \<Rightarrow> eval_result
   \<Rightarrow> jserror + eval_result" where
  "rulesLoop body [] st = Inr st"
| "rulesLoop body (rule # rules) st =
     (case body rule st of Inl e \<Rightarrow> Inl e | Inr st' \<Rightarrow> rulesLoop body rules st')"

definition noMatchLog :: "eval_result \<Rightarrow> eval_result" where
  "noMatchLog st = (if length (matches st) = 0 then st\<lparr>logs := logs st @ [NoRuleMatched]\<rparr> else st)"

text \<open>\<open>Object.keys(actionStep)[0]\<close>\<close>

definition firstKey :: "jsval \<Rightarrow> jsval" where
  "firstKey v = (case objectKeys v of [] \<Rightarrow> JUndefined | k # ks \<Rightarrow> JStr k)"


subsection \<open>The if/then engine (lib/rulesEngine.js, function evaluateRules)\<close>






subsection \<open>The conditions engine (unnamed/part_000, functions evaluateRules, evaluateCondition)\<close>

text \<open>The walk along an \<open>alert.\<close> path: a step needs a truthy object that has the part.\<close>

fun walkPath :: "jsval \<Rightarrow> string list \<Rightarrow> jsval" where
  "walkPath alertValue [] = alertValue"
| "walkPath alertValue (part # parts) =
     (if truthy alertValue \<and> isObjectType alertValue \<and> hasProp alertValue part
      then walkPath (getProp alertValue part) parts
      else JUndefined)"

text \<open>\<open>parseFloat(a) op parseFloat(b)\<close>: false when either side is \<open>NaN\<close>.\<close>

definition floatCompare :: "(rat \<Rightarrow> rat \<Rightarrow> bool) \<Rightarrow> jsval \<Rightarrow> jsval \<Rightarrow> bool" where
  "floatCompare rel a b =
     (case (parseFloat a, parseFloat b) of
        (Some x, Some y) \<Rightarrow> rel x y
      | _ \<Rightarrow> False)"

text \<open>\<open>condition.field\<close> throws on a condition that is \<open>null\<close>; \<open>field.startsWith\<close>
  throws on a truthy field that is not a string. \<open>field.replace('alert.', '')\<close> removes
  the prefix just tested.\<close>

definition evaluateCondition :: "jsval \<Rightarrow> alert \<Rightarrow> jserror + bool" where
  "evaluateCondition condition normalized =
     (if isNullish condition then Inl TypeError
      else
        let field = jsOr (getProp condition ''field'') (JStr []);
            operator = jsOr (getProp condition ''operator'') (JStr []);
            val = getProp condition ''value''
        in (case field of
              JStr f \<Rightarrow>
                (let alertValue =
                       (if startsWith f ''alert.''
                        then walkPath (alertObj normalized) (splitOn CHR ''.'' (drop 6 f))
                        else getProp (alertObj normalized) f)
                 in Inr
                   (if operator = JStr ''equals'' then strictEq alertValue val
                    else if operator = JStr ''greater_than'' then floatCompare (\<lambda>x y. x > y) alertValue val
                    else if operator = JStr ''less_than'' then floatCompare (\<lambda>x y. x < y) alertValue val
                    else if operator = JStr ''greater_than_or_equal''
                      then floatCompare (\<lambda>x y. x \<ge> y) alertValue val
                    else if operator = JStr ''less_than_or_equal''
                      then floatCompare (\<lambda>x y. x \<le> y) alertValue val
                    else if operator = JStr ''contains'' then
                      (case (alertValue, val) of
                         (JStr a, JStr b) \<Rightarrow> includesStr a b
                       | _ \<Rightarrow> False)
                    else if operator = JStr ''not_equals'' then \<not> strictEq alertValue val
                    else False))
            | _ \<Rightarrow> Inl TypeError))"

text \<open>The \<open>all\<close> loop leaves at the first false condition, the \<open>any\<close> loop at the first
  true one; conditions after that are not evaluated.\<close>

fun allLoop :: "jsval list \<Rightarrow> alert \<Rightarrow> jserror + bool" where
  "allLoop [] normalized = Inr True"
| "allLoop (condition # conditions) normalized =
     (case evaluateCondition condition normalized of
        Inl e \<Rightarrow> Inl e
      | Inr b \<Rightarrow> if \<not> b then Inr False else allLoop conditions normalized)"

fun anyLoop :: "jsval list \<Rightarrow> alert \<Rightarrow> jserror + bool" where
  "anyLoop [] normalized = Inr False"
| "anyLoop (condition # conditions) normalized =
     (case evaluateCondition condition normalized of
        Inl e \<Rightarrow> Inl e
      | Inr b \<Rightarrow> if b then Inr True else anyLoop conditions normalized)"

definition ruleMatched_conditions :: "alert \<Rightarrow> jsval \<Rightarrow> jserror + bool" where
  "ruleMatched_conditions normalized rule =
     (let conditions = jsOr (getProp rule ''conditions'') (JObj [])
      in (case getProp conditions ''all'' of
            JArr cs \<Rightarrow> allLoop cs normalized
          | _ \<Rightarrow>
             (case getProp conditions ''any'' of
                JArr cs \<Rightarrow> anyLoop cs normalized
              | _ \<Rightarrow> Inr False)))"

definition actionLog_conditions :: "alert \<Rightarrow> jsval \<Rightarrow> jserror + log_line" where
  "actionLog_conditions normalized actionStep =
     (if isNullish actionStep then Inl TypeError
      else
        let isString = (case actionStep of JStr s \<Rightarrow> True | _ \<Rightarrow> False);
            actionName =
              (if isString then actionStep
               else if truthy (getProp actionStep ''action'') then getProp actionStep ''action''
               else firstKey actionStep);
            params =
              (if isString then JObj []
               else if truthy (getProp actionStep ''action'')
               then jsOr (getProp actionStep ''params'') (JObj [])
               else jsOr (optProp (getProp actionStep (toStringJs actionName)) ''params'') (JObj []));
            paramValue =
              (if strictEq actionName (JStr ''firewall.block_ip'') \<and> truthy (getProp params ''ip'')
               then jsOr (getProp (alertObj normalized) (toStringJs (getProp params ''ip'')))
                         (src_ip normalized)
               else if (strictEq actionName (JStr ''edr_isolate_host'')
                        \<or> strictEq actionName (JStr ''isolate_host''))
                       \<and> truthy (getProp params ''host_field'')
               then jsOr (getProp (alertObj normalized) (toStringJs (getProp params ''host_field'')))
                         (machine normalized)
               else JNull)
        in Inr (if truthy paramValue then ActionExecuted actionName (Some paramValue)
                else ActionExecuted actionName None))"

definition actionsLogs :: "alert \<Rightarrow> jsval \<Rightarrow> jserror + log_line list" where
  "actionsLogs normalized rule =
     (case getProp rule ''actions'' of
        JArr steps \<Rightarrow> mapE (actionLog_conditions normalized) steps
      | _ \<Rightarrow> Inr [])"

definition ruleBody_conditions :: "alert \<Rightarrow> jsval \<Rightarrow> eval_result \<Rightarrow> jserror + eval_result" where
  "ruleBody_conditions normalized rule st =
     (if isNullish rule then Inl TypeError
      else (case ruleMatched_conditions normalized rule of
              Inl e \<Rightarrow> Inl e
            | Inr matched \<Rightarrow>
                if matched
                then (case actionsLogs normalized rule of
                        Inl e \<Rightarrow> Inl e
                      | Inr ls \<Rightarrow>
                          Inr \<lparr>logs = logs st @ [MatchedRule (getProp rule ''name'')] @ ls,
                               matches = matches st @ [rule]\<rparr>)
                else Inr st))"

definition evaluateRules_conditions :: "alert \<Rightarrow> jsval list \<Rightarrow> jserror + eval_result" where
  "evaluateRules_conditions normalized rules =
     (case rulesLoop (ruleBody_conditions normalized) rules \<lparr>logs = [], matches = []\<rparr> of
        Inl e \<Rightarrow> Inl e
      | Inr st \<Rightarrow> Inr (noMatchLog st))"

section \<open>Regular expressions\<close>

text \<open>
  The regular expressions of the program are sequences of atoms: an alternation of literal
  strings (a literal is the alternation of one string), a greedy repetition of a character
  class with its bounds, the word boundary \<open>\b\<close>, and the anchors \<open>^\<close> and \<open>$\<close> (no
  expression has the \<open>m\<close> flag). A bounded group such as \<open>(\.\d{1,3}){3}\<close> is written
  out. The matcher backtracks as the engine does: a repetition tries its longest run
  first, an alternation its strings in order. A match is the list of the lengths its atoms
  consumed, from which the match and its groups are cut. The character before the
  position is needed for \<open>\b\<close>; it is \<open>None\<close> at the start of the input.
\<close>

datatype atom =
    Alts "string list"
  | Cls "char \<Rightarrow> bool" nat "nat option"
  | WordB
  | BOL
  | EOL

abbreviation Lit :: "string \<Rightarrow> atom" where
  "Lit t \<equiv> Alts [t]"

definition isWordChar :: "char \<Rightarrow> bool" where
  "isWordChar c =
     (let n = (of_char c :: nat)
      in (48 \<le> n \<and> n \<le> 57) \<or> (65 \<le> n \<and> n \<le> 90) \<or> (97 \<le> n \<and> n \<le> 122) \<or> n = 95)"

definition atWordBoundary :: "char option \<Rightarrow> string \<Rightarrow> bool" where
  "atWordBoundary prev s =
     ((case prev of None \<Rightarrow> False | Some c \<Rightarrow> isWordChar c)
      \<noteq> (case s of [] \<Rightarrow> False | c # cs \<Rightarrow> isWordChar c))"

definition prevAfter :: "char option \<Rightarrow> string \<Rightarrow> nat \<Rightarrow> char option" where
  "prevAfter prev s k = (if k = 0 \<or> length s < k then prev else Some (s ! (k - 1)))"

function matchAt :: "atom list \<Rightarrow> char option \<Rightarrow> string \<Rightarrow> nat list option"
  and tryAlts :: "string list \<Rightarrow> atom list \<Rightarrow> char option \<Rightarrow> string \<Rightarrow> nat list option"
  and tryCls :: "nat \<Rightarrow> nat \<Rightarrow> atom list \<Rightarrow> char option \<Rightarrow> string \<Rightarrow> nat list option"
where
  "matchAt [] prev s = Some []"
| "matchAt (Alts ts # as) prev s = tryAlts ts as prev s"
| "matchAt (Cls p lo hi # as) prev s =
     (let run = length (takeWhile p s)
      in tryCls lo (case hi of None \<Rightarrow> run | Some h \<Rightarrow> min run h) as prev s)"
| "matchAt (WordB # as) prev s =
     (if atWordBoundary prev s then map_option ((#) 0) (matchAt as prev s) else None)"
| "matchAt (BOL # as) prev s =
     (if prev = None then map_option ((#) 0) (matchAt as prev s) else None)"
| "matchAt (EOL # as) prev s =
     (if s = [] then map_option ((#) 0) (matchAt as prev s) else None)"
| "tryAlts [] as prev s = None"
| "tryAlts (t # ts) as prev s =
     (if startsWith s t
      then (case matchAt as (prevAfter prev s (length t)) (drop (length t) s) of
              Some ls \<Rightarrow> Some (length t # ls)
            | None \<Rightarrow> tryAlts ts as prev s)
      else tryAlts ts as prev s)"
| "tryCls lo k as prev s =
     (if k < lo then None
      else (case matchAt as (prevAfter prev s k) (drop k s) of
              Some ls \<Rightarrow> Some (k # ls)
            | None \<Rightarrow> if k = 0 then None else tryCls lo (k - 1) as prev s))"
  by pat_completeness auto
termination
  by (relation "measures
        [\<lambda>x. case x of Inl (as, _, _) \<Rightarrow> length as
                     | Inr (Inl (_, as, _, _)) \<Rightarrow> length as
                     | Inr (Inr (_, _, as, _, _)) \<Rightarrow> length as,
         \<lambda>x. case x of Inl _ \<Rightarrow> 0
                     | Inr (Inl (ts, _, _, _)) \<Rightarrow> Suc (length ts)
                     | Inr (Inr (_, k, _, _, _)) \<Rightarrow> Suc k]") auto

declare tryCls.simps [simp del]

text \<open>A match never consumes more than the input holds.\<close>

lemma startsWith_length: "startsWith s t \<Longrightarrow> length t \<le> length s"
proof -
  assume "startsWith s t"
  then have "length (take (length t) s) = length t"
    by (simp only: startsWith_def)
  then show ?thesis
    by simp
qed

lemma matchAt_sum_le:
  "matchAt as prev s = Some ls \<Longrightarrow> sum_list ls \<le> length s"
  "tryAlts ts as prev s = Some ls \<Longrightarrow> sum_list ls \<le> length s"
  "tryCls lo k as prev s = Some ls \<Longrightarrow> k \<le> length s \<Longrightarrow> sum_list ls \<le> length s"
proof (induction as prev s and ts as prev s and lo k as prev s arbitrary: ls and ls and ls
       rule: matchAt_tryAlts_tryCls.induct)
  case (1 prev s)
  then show ?case by simp
next
  case (2 ts as prev s)
  from 2(2) have "tryAlts ts as prev s = Some ls" by simp
  then show ?case by (rule 2(1))
next
  case (3 p lo hi as prev s)
  have le: "length (takeWhile p s) \<le> length s"
    by (rule length_takeWhile_le)
  define k where "k = (case hi of None \<Rightarrow> length (takeWhile p s)
                        | Some h \<Rightarrow> min (length (takeWhile p s)) h)"
  have k: "k \<le> length s"
    using le by (cases hi) (simp_all add: k_def)
  from 3(2) have "tryCls lo k as prev s = Some ls"
    by (simp add: Let_def k_def)
  from 3(1)[OF refl this[unfolded k_def] k[unfolded k_def]] show ?case .
next
  case (4 as prev s)
  from 4(2) obtain ms where b: "atWordBoundary prev s" and m: "matchAt as prev s = Some ms"
    and ls: "ls = 0 # ms"
    by (auto split: if_splits)
  from 4(1)[OF b m] ls show ?case by simp
next
  case (5 as prev s)
  from 5(2) obtain ms where b: "prev = None" and m: "matchAt as prev s = Some ms"
    and ls: "ls = 0 # ms"
    by (auto split: if_splits)
  from 5(1)[OF b m] ls show ?case by simp
next
  case (6 as prev s)
  from 6(2) obtain ms where b: "s = []" and m: "matchAt as prev s = Some ms"
    and ls: "ls = 0 # ms"
    by (auto split: if_splits)
  from 6(1)[OF b m] ls show ?case by simp
next
  case (7 as prev s)
  then show ?case by simp
next
  case (8 t ts as prev s)
  show ?case
  proof (cases "startsWith s t")
    case True
    note sw = this
    show ?thesis
    proof (cases "matchAt as (prevAfter prev s (length t)) (drop (length t) s)")
      case None
      from 8(4) sw None have "tryAlts ts as prev s = Some ls" by simp
      from 8(2)[OF sw None this] show ?thesis .
    next
      case (Some ms)
      from 8(4) sw Some have ls: "ls = length t # ms" by simp
      from 8(1)[OF sw Some] have "sum_list ms \<le> length s - length t" by simp
      with startsWith_length[OF sw] ls show ?thesis by simp
    qed
  next
    case False
    from 8(4) False have "tryAlts ts as prev s = Some ls" by simp
    from 8(3)[OF False this] show ?thesis .
  qed
next
  case (9 lo k as prev s)
  note eq = tryCls.simps[of lo k as prev s]
  show ?case
  proof (cases "k < lo")
    case True
    with 9(3) eq show ?thesis by simp
  next
    case False
    note nlt = this
    show ?thesis
    proof (cases "matchAt as (prevAfter prev s k) (drop k s)")
      case None
      show ?thesis
      proof (cases "k = 0")
        case True
        with 9(3) eq nlt None show ?thesis by simp
      next
        case False
        from 9(3) eq nlt None False have r: "tryCls lo (k - 1) as prev s = Some ls" by simp
        from 9(4) have "k - 1 \<le> length s" by simp
        from 9(2)[OF nlt None False r this] show ?thesis .
      qed
    next
      case (Some ms)
      from 9(3) eq nlt Some have ls: "ls = k # ms" by simp
      from 9(1)[OF nlt Some] have "sum_list ms \<le> length s - k" by simp
      with 9(4) ls show ?thesis by simp
    qed
  qed
qed

text \<open>
  The scan of a global expression over a string, as \<open>replace\<close> and \<open>match\<close> with the
  \<open>g\<close> flag do it: at each position the expression is tried; a match is recorded with
  the text before it, the matched text, the atom lengths and the text after it, and the
  scan goes on behind it (one character further after an empty match); without a match
  the character is passed over. The consumed text is kept reversed.
\<close>

datatype segment =
    Skipped char
  | Matched string string "nat list" string

definition prevOf :: "string \<Rightarrow> char option" where
  "prevOf rbefore = (case rbefore of [] \<Rightarrow> None | c # cs \<Rightarrow> Some c)"

function scan :: "atom list \<Rightarrow> string \<Rightarrow> string \<Rightarrow> segment list" where
  "scan re rbefore rest =
     (case matchAt re (prevOf rbefore) rest of
        Some ls \<Rightarrow>
          (let n = sum_list ls; m = take n rest
           in Matched (rev rbefore) m ls (drop n rest) #
              (if n = 0
               then (case rest of [] \<Rightarrow> [] | c # cs \<Rightarrow> Skipped c # scan re (c # rbefore) cs)
               else scan re (rev m @ rbefore) (drop n rest)))
      | None \<Rightarrow> (case rest of [] \<Rightarrow> [] | c # cs \<Rightarrow> Skipped c # scan re (c # rbefore) cs))"
  by pat_completeness auto
termination
proof (relation "measure (\<lambda>(re, rbefore, rest). length rest)")
  fix re :: "atom list" and rbefore rest :: string and ls :: "nat list" and n m
  assume "matchAt re (prevOf rbefore) rest = Some ls" and "n = sum_list ls" and "n \<noteq> 0"
  then have "n \<le> length rest" and "0 < n"
    using matchAt_sum_le(1)[of re "prevOf rbefore" rest ls] by arith+
  then show "((re, rev m @ rbefore, drop n rest), (re, rbefore, rest))
      \<in> measure (\<lambda>(re, rbefore, rest). length rest)"
    by simp
qed auto

declare scan.simps [simp del]

text \<open>\<open>s.replace(re, f)\<close> with a global expression: the callback sees the text before
  the match (the input up to \<open>offset\<close>), the match, the atom lengths and the text after
  the match. \<open>s.match(re)\<close> with a global expression: the matched texts (\<open>null\<close> when
  there is none, the empty list here). \<open>re.test(s)\<close>: there is a match somewhere.\<close>

definition replaceAll ::
  "atom list \<Rightarrow> (string \<Rightarrow> string \<Rightarrow> nat list \<Rightarrow> string \<Rightarrow> string) \<Rightarrow> string \<Rightarrow> string" where
  "replaceAll re f s =
     concat (map (\<lambda>seg. case seg of Skipped c \<Rightarrow> [c] | Matched b m ls a \<Rightarrow> f b m ls a)
                 (scan re [] s))"

definition matchAll :: "atom list \<Rightarrow> string \<Rightarrow> string list" where
  "matchAll re s =
     concat (map (\<lambda>seg. case seg of Skipped c \<Rightarrow> [] | Matched b m ls a \<Rightarrow> [m]) (scan re [] s))"

fun testFrom :: "atom list \<Rightarrow> char option \<Rightarrow> string \<Rightarrow> bool" where
  "testFrom re prev [] = (matchAt re prev [] \<noteq> None)"
| "testFrom re prev (c # cs) = (matchAt re prev (c # cs) \<noteq> None \<or> testFrom re (Some c) cs)"

definition test :: "atom list \<Rightarrow> string \<Rightarrow> bool" where
  "test re s = testFrom re None s"

text \<open>\<open>s.match(re)\<close> without the \<open>g\<close> flag: the first match from the left, as the atom
  lengths and the text from its position on.\<close>

fun firstMatchFrom :: "atom list \<Rightarrow> char option \<Rightarrow> string \<Rightarrow> (nat list \<times> string) option" where
  "firstMatchFrom re prev [] = map_option (\<lambda>ls. (ls, [])) (matchAt re prev [])"
| "firstMatchFrom re prev (c # cs) =
     (case matchAt re prev (c # cs) of
        Some ls \<Rightarrow> Some (ls, c # cs)
      | None \<Rightarrow> firstMatchFrom re (Some c) cs)"

text \<open>The text the \<open>i\<close>-th atom of a match consumed (a capture group).\<close>

definition atomText :: "nat list \<Rightarrow> string \<Rightarrow> nat \<Rightarrow> string" where
  "atomText ls m i = take (ls ! i) (drop (sum_list (take i ls)) m)"



text \<open>\<open>.\<close> matches everything but a line terminator; \<open>[\w.]\<close> is a path character.\<close>

definition notLineEnd :: "char \<Rightarrow> bool" where
  "notLineEnd c = ((of_char c :: nat) \<notin> {10, 13})"

definition pathChar :: "char \<Rightarrow> bool" where
  "pathChar c = (isWordChar c \<or> c = CHR ''.'')"

section \<open>Expression evaluator (pages/PlaybookBuilder.tsx, function evaluateExpressionUnified)\<close>

subsection \<open>JSON text of a value\<close>

definition hexDigit :: "nat \<Rightarrow> char" where
  "hexDigit d = (if d < 10 then char_of (48 + d) else char_of (87 + d))"

text \<open>\<open>JSON.stringify\<close> of a string escapes the quote, the backslash and the control
  characters.\<close>

definition jsonEscapeChar :: "char \<Rightarrow> string" where
  "jsonEscapeChar c =
     (let n = (of_char c :: nat)
      in if n = 34 then [CHR 0x5C, CHR 0x22]
         else if n = 92 then [CHR 0x5C, CHR 0x5C]
         else if n = 8 then [CHR 0x5C, CHR ''b'']
         else if n = 12 then [CHR 0x5C, CHR ''f'']
         else if n = 10 then [CHR 0x5C, CHR ''n'']
         else if n = 13 then [CHR 0x5C, CHR ''r'']
         else if n = 9 then [CHR 0x5C, CHR ''t'']
         else if n < 32 then [CHR 0x5C, CHR ''u'', CHR ''0'', CHR ''0'',
                              hexDigit (n div 16), hexDigit (n mod 16)]
         else [c])"

definition jsonQuote :: "string \<Rightarrow> string" where
  "jsonQuote s = [CHR 0x22] @ concat (map jsonEscapeChar s) @ [CHR 0x22]"

text \<open>\<open>JSON.stringify(v)\<close>; \<open>None\<close> is the result \<open>undefined\<close>. In an array
  \<open>undefined\<close> is written \<open>null\<close>; in an object a property that is \<open>undefined\<close> is left
  out.\<close>

fun jsonStringify :: "jsval \<Rightarrow> string option" where
  "jsonStringify JUndefined = None"
| "jsonStringify JNull = Some ''null''"
| "jsonStringify (JBool b) = Some (if b then ''true'' else ''false'')"
| "jsonStringify (JNum n) = Some (showInt n)"
| "jsonStringify (JStr s) = Some (jsonQuote s)"
| "jsonStringify (JArr xs) =
     Some (''['' @ joinWith '',''
             (map (\<lambda>x. case jsonStringify x of None \<Rightarrow> ''null'' | Some t \<Rightarrow> t) xs) @ '']'')"
| "jsonStringify (JObj kvs) =
     Some (''{'' @ joinWith '',''
             (concat (map (\<lambda>(k, v). case jsonStringify v of
                                        None \<Rightarrow> []
                                      | Some t \<Rightarrow> [jsonQuote k @ '':'' @ t]) kvs)) @ ''}'')"

subsection \<open>The expressions\<close>

text \<open>\<open>/^\$\{(.+)\}$/\<close>, \<open>/\bsteps\.\w+/\<close>, \<open>/\$\{steps\./\<close>, \<open>/\bsteps\.([\w.]+)/g\<close> and
  \<open>/\$\{steps\.([\w.]+)\}/g\<close>\<close>

definition wrapperRe :: "atom list" where
  "wrapperRe = [BOL, Lit ''${'', Cls notLineEnd 1 None, Lit ''}'', EOL]"

definition bareStepsRe :: "atom list" where
  "bareStepsRe = [WordB, Lit ''steps.'', Cls isWordChar 1 None]"

definition wrappedStepsRe :: "atom list" where
  "wrappedStepsRe = [Lit ''${steps.'']"

definition barePathRe :: "atom list" where
  "barePathRe = [WordB, Lit ''steps.'', Cls pathChar 1 None]"

definition variableRe :: "atom list" where
  "variableRe = [Lit ''${steps.'', Cls pathChar 1 None, Lit ''}'']"

subsection \<open>Steps 1 and 2: the wrapper and bare references\<close>

definition stripWrapper :: "string \<Rightarrow> string" where
  "stripWrapper evaluated =
     (case firstMatchFrom wrapperRe None evaluated of
        Some (ls, m) \<Rightarrow> atomText ls m 2
      | None \<Rightarrow> evaluated)"

text \<open>The replacement string \<open>'${steps.$1}'\<close>: \<open>$1\<close> is the path, the third atom.\<close>

definition normalizeBareSteps :: "string \<Rightarrow> string" where
  "normalizeBareSteps evaluated =
     (let hasBareSteps = test bareStepsRe evaluated;
          hasWrappedSteps = test wrappedStepsRe evaluated
      in if hasBareSteps \<and> \<not> hasWrappedSteps
         then replaceAll barePathRe (\<lambda>b m ls a. ''${steps.'' @ atomText ls m 2 @ ''}'') evaluated
         else evaluated)"

subsection \<open>Step 3: substitution\<close>

record subst_state =
  missingVars :: "string list"
  replacedVars :: "string list"
  missingEnrichSteps :: "string list"

text \<open>The walk along the path; \<open>None\<close> when a part is missing.\<close>

fun resolvePath :: "jsval \<Rightarrow> string list \<Rightarrow> jsval option" where
  "resolvePath v [] = Some v"
| "resolvePath v (part # parts) =
     (if truthy v \<and> isObjectType v \<and> hasProp v part
      then resolvePath (getProp v part) parts
      else None)"

definition formatValue :: "jsval \<Rightarrow> string" where
  "formatValue v =
     (case v of
        JBool b \<Rightarrow> toStringJs v
      | JNum n \<Rightarrow> toStringJs v
      | JStr s \<Rightarrow> jsonQuote s
      | JNull \<Rightarrow> ''null''
      | JUndefined \<Rightarrow> ''null''
      | _ \<Rightarrow> (case jsonStringify v of Some t \<Rightarrow> t | None \<Rightarrow> ''undefined''))"

text \<open>The hint for a missing variable whose first part names an enrichment that is not
  enabled. \<open>enrichConfig\<close> is an object (both callers pass \<open>config.enrich || {}\<close>).\<close>

definition enrichHint :: "jsval \<Rightarrow> string \<Rightarrow> string list" where
  "enrichHint enrichConfig enrichStep =
     (if enrichStep = ''vt_hash'' \<and> \<not> truthy (getProp enrichConfig ''vt_hash'')
      then [''VirusTotal Hash lookup'']
      else if enrichStep = ''vt_url'' \<and> \<not> truthy (getProp enrichConfig ''vt_url'')
      then [''VirusTotal URL reputation'']
      else if enrichStep = ''abuseipdb'' \<and> \<not> truthy (getProp enrichConfig ''abuseipdb_geoip'')
      then [''AbuseIPDB / GeoIP'']
      else [])"

text \<open>The replace callback: the replacement text and the arrays it pushes to.\<close>

definition substituteVar ::
  "jsval \<Rightarrow> jsval \<Rightarrow> string \<Rightarrow> string \<Rightarrow> subst_state \<Rightarrow> string \<times> subst_state" where
  "substituteVar steps enrichConfig match path st =
     (let parts = splitOn CHR ''.'' path
      in (case resolvePath steps parts of
            None \<Rightarrow>
              (''null'',
               st\<lparr>missingVars := missingVars st @ [match],
                  missingEnrichSteps := missingEnrichSteps st @
                     enrichHint enrichConfig (case parts of [] \<Rightarrow> [] | p # ps \<Rightarrow> p)\<rparr>)
          | Some v \<Rightarrow> (formatValue v, st\<lparr>replacedVars := replacedVars st @ [match]\<rparr>)))"

fun substituteAll ::
  "jsval \<Rightarrow> jsval \<Rightarrow> segment list \<Rightarrow> subst_state \<Rightarrow> string \<times> subst_state" where
  "substituteAll steps enrichConfig [] st = ([], st)"
| "substituteAll steps enrichConfig (Skipped c # segs) st =
     (case substituteAll steps enrichConfig segs st of (t, st') \<Rightarrow> (c # t, st'))"
| "substituteAll steps enrichConfig (Matched b m ls a # segs) st =
     (case substituteVar steps enrichConfig m (atomText ls m 1) st of
        (r, st1) \<Rightarrow>
          (case substituteAll steps enrichConfig segs st1 of (t, st2) \<Rightarrow> (r @ t, st2)))"

subsection \<open>The function\<close>

text \<open>
  The result object: \<open>{success: true, result, evaluated, missingVars, replacedVars}\<close> or
  \<open>{success: false, error, evaluated}\<close>. Every \<open>throw\<close> of the function is caught by its
  own \<open>catch\<close> and becomes the second form, with \<open>evaluated || expression || ''\<close> as the
  evaluated text.
\<close>

datatype expr_result =
    ExprSuccess jsval string "string list" "string list"
  | ExprFailure string string

definition evaluatedOr :: "string \<Rightarrow> string \<Rightarrow> string" where
  "evaluatedOr evaluated expression = (if evaluated \<noteq> [] then evaluated else expression)"

text \<open>
  Steps 3 to 6 on the text steps 1 and 2 produced. Step 6 runs the substituted text
  through the JavaScript engine, \<open>Function('"use strict"; return (' + evaluated + ')')()\<close>;
  the engine is the parameter \<open>jsEval\<close>, which gives the value of the text or the message
  of the error it throws.
\<close>

definition evaluateFrom ::
  "(string \<Rightarrow> string + jsval) \<Rightarrow> string \<Rightarrow> string \<Rightarrow> jsval \<Rightarrow> jsval \<Rightarrow> expr_result" where
  "evaluateFrom jsEval expression evaluated0 steps enrichConfig =
     (case substituteAll steps enrichConfig (scan variableRe [] evaluated0)
             \<lparr>missingVars = [], replacedVars = [], missingEnrichSteps = []\<rparr> of
        (evaluated, st) \<Rightarrow>
          (let remainingVars = matchAll variableRe evaluated
           in if length remainingVars > 0
              then ExprFailure
                     (''Unresolved variables found: '' @ joinWith '', '' remainingVars @
                      ''. These variables may not be available in the test data.'' @
                      (if length (missingEnrichSteps st) > 0
                       then [CHR 0x0A, CHR 0x0A] @ ''Please enable the following enrich steps: '' @
                            joinWith '', '' (missingEnrichSteps st)
                       else []))
                     (evaluatedOr evaluated expression)
              else
                (let bareStepsMatch = matchAll bareStepsRe evaluated
                 in if length bareStepsMatch > 0
                    then ExprFailure
                           (''Invalid variable format: '' @ joinWith '', '' bareStepsMatch @
                            ''. Variables must use ${steps.xxx} format.'')
                           (evaluatedOr evaluated expression)
                    else (case jsEval evaluated of
                            Inr result \<Rightarrow>
                              ExprSuccess result evaluated (missingVars st) (replacedVars st)
                          | Inl message \<Rightarrow>
                              ExprFailure
                                (''Expression evaluation failed: '' @ message @
                                 ''. Evaluated expression: '' @ evaluated)
                                (evaluatedOr evaluated expression)))))"

text \<open>The expression is a string (\<open>ConditionState.expression\<close>); the first check rejects
  the empty one.\<close>

definition evaluateExpressionUnified ::
  "(string \<Rightarrow> string + jsval) \<Rightarrow> string \<Rightarrow> jsval \<Rightarrow> jsval \<Rightarrow> expr_result" where
  "evaluateExpressionUnified jsEval expression steps enrichConfig =
     (if expression = [] then ExprFailure ''Expression must be a non-empty string'' []
      else evaluateFrom jsEval expression
             (normalizeBareSteps (stripWrapper (trim expression))) steps enrichConfig)"

section \<open>Artifact generator (pages/PlaybookBuilder.tsx, utils/generateYaml.ts)\<close>

subsection \<open>The playbook configuration (types/playbook.ts)\<close>

record CollectMapping =
  sender :: string
  recipient :: string
  subject :: string
  urls :: string
  attachment_hashes :: string
  src_ip :: string

record EnrichFlags =
  vt_hash :: bool
  vt_url :: bool
  abuseipdb_geoip :: bool

record ConditionState =
  expression :: string

text \<open>An \<open>ActionInput\<close> is an object from keys to strings, kept in enumeration order.\<close>

record ActionItem =
  id' :: string
  action :: string
  input :: "(string \<times> string) list"

record ActionsState =
  trueActions :: "ActionItem list"
  falseActions :: "ActionItem list"

record PlaybookConfig =
  name :: string
  collect :: CollectMapping
  enrich :: EnrichFlags
  condition :: ConditionState
  actions :: ActionsState

subsection \<open>generateInstanceYaml: the steps\<close>

text \<open>A mapping entry is written only for a non-empty string.\<close>

definition collectMapping :: "PlaybookConfig \<Rightarrow> (string \<times> jsval) list" where
  "collectMapping config =
     (if sender (collect config) \<noteq> [] then [(''sender'', JStr (sender (collect config)))] else []) @
     (if recipient (collect config) \<noteq> []
      then [(''recipient'', JStr (recipient (collect config)))] else []) @
     (if subject (collect config) \<noteq> [] then [(''subject'', JStr (subject (collect config)))] else []) @
     (if urls (collect config) \<noteq> [] then [(''urls'', JStr (urls (collect config)))] else []) @
     (if attachment_hashes (collect config) \<noteq> []
      then [(''attachment_hashes'', JStr (attachment_hashes (collect config)))] else []) @
     (if CollectMapping.src_ip (collect config) \<noteq> []
      then [(''src_ip'', JStr (CollectMapping.src_ip (collect config)))] else [])"

text \<open>The enrich steps, in the order the three flags are tested; each is created with
  \<open>next: 'evaluate'\<close>.\<close>

definition vtHashStep :: jsval where
  "vtHashStep = JObj [(''id'', JStr ''vt_hash''), (''type'', JStr ''vt_hash_lookup''),
     (''params'', JObj [(''hashes'', JStr ''${steps.collect.attachment_hashes}'')]),
     (''next'', JStr ''evaluate'')]"

definition vtUrlStep :: jsval where
  "vtUrlStep = JObj [(''id'', JStr ''vt_url''), (''type'', JStr ''vt_url_reputation''),
     (''params'', JObj [(''urls'', JStr ''${steps.collect.urls}'')]),
     (''next'', JStr ''evaluate'')]"

definition abuseipdbStep :: jsval where
  "abuseipdbStep = JObj [(''id'', JStr ''abuseipdb''), (''type'', JStr ''abuseipdb_lookup''),
     (''params'', JObj [(''ip'', JStr ''${steps.collect.src_ip}'')]),
     (''next'', JStr ''evaluate'')]"

definition enrichSteps :: "PlaybookConfig \<Rightarrow> jsval list" where
  "enrichSteps config =
     (if vt_hash (enrich config) then [vtHashStep] else []) @
     (if vt_url (enrich config) then [vtUrlStep] else []) @
     (if abuseipdb_geoip (enrich config) then [abuseipdbStep] else [])"

definition enrichStepIds :: "PlaybookConfig \<Rightarrow> string list" where
  "enrichStepIds config =
     (if vt_hash (enrich config) then [''vt_hash''] else []) @
     (if vt_url (enrich config) then [''vt_url''] else []) @
     (if abuseipdb_geoip (enrich config) then [''abuseipdb''] else [])"

text \<open>The collect step after \<open>collectStep.next\<close> has been assigned: the array of the enrich
  step ids if there is one, else \<open>'evaluate'\<close>.\<close>

definition collectStep :: "PlaybookConfig \<Rightarrow> jsval" where
  "collectStep config = JObj
     [(''id'', JStr ''collect''), (''type'', JStr ''collect_normalize''),
      (''params'', if length (collectMapping config) > 0
                   then JObj [(''mapping'', JObj (collectMapping config))] else JObj []),
      (''next'', if length (enrichStepIds config) > 0
                 then JArr (map JStr (enrichStepIds config)) else JStr ''evaluate'')]"

definition evaluateStep :: "PlaybookConfig \<Rightarrow> jsval" where
  "evaluateStep config = JObj
     [(''id'', JStr ''evaluate''), (''type'', JStr ''condition''),
      (''params'', JObj [(''expression'', JStr (expression (condition config)))]),
      (''true_next'', JStr ''high''), (''false_next'', JStr ''low'')]"

text \<open>The \<open>switch\<close> on the action name; \<open>Object.assign\<close> copies the builder's input map.\<close>

definition actionObj :: "ActionItem \<Rightarrow> jsval" where
  "actionObj a = JObj
     [(''action'', JStr (action a)),
      (''input'', JObj
         (if action a = ''mail.quarantine'' then [(''message_id'', JStr ''${alert.alert_id}'')]
          else if action a = ''identity.suspend_user''
            then [(''user'', JStr ''${steps.collect.sender}'')]
          else if action a = ''firewall.block_ip'' then [(''ip'', JStr ''${steps.collect.src_ip}'')]
          else map (\<lambda>(k, v). (k, JStr v)) (input a)))]"

definition actionGroup :: "string \<Rightarrow> ActionItem list \<Rightarrow> jsval" where
  "actionGroup gid items = JObj
     [(''id'', JStr gid), (''type'', JStr ''action_group''),
      (''params'', JObj [(''actions'', JArr (map actionObj items))])]"

definition instanceSteps :: "PlaybookConfig \<Rightarrow> jsval list" where
  "instanceSteps config =
     [collectStep config] @ enrichSteps config @
     [evaluateStep config,
      actionGroup ''high'' (trueActions (actions config)),
      actionGroup ''low'' (falseActions (actions config))]"

definition instanceStructure :: "PlaybookConfig \<Rightarrow> jsval" where
  "instanceStructure config = JObj
     [(''name'', JStr (if name config \<noteq> [] then name config else ''Untitled Playbook'')),
      (''steps'', JArr (instanceSteps config))]"

text \<open>\<open>steps.find(s => s.id === stepId)\<close>\<close>

definition findStep :: "jsval list \<Rightarrow> string \<Rightarrow> jsval option" where
  "findStep steps stepId = find (\<lambda>s. getProp s ''id'' = JStr stepId) steps"

subsection \<open>generateYaml (utils/generateYaml.ts): the steps\<close>

text \<open>The steps are created with \<open>next: null\<close> and assigned afterwards through the
  objects held by the array; \<open>setNext\<close> is that assignment to the first step of an id.\<close>

fun setProp :: "jsval \<Rightarrow> string \<Rightarrow> jsval \<Rightarrow> jsval" where
  "setProp (JObj kvs) k v =
     JObj (if k \<in> set (map fst kvs) then map (\<lambda>(k', v'). if k' = k then (k', v) else (k', v')) kvs
           else kvs @ [(k, v)])"
| "setProp other k v = other"

fun setNext :: "string \<Rightarrow> jsval \<Rightarrow> jsval list \<Rightarrow> jsval list" where
  "setNext stepId v [] = []"
| "setNext stepId v (s # steps) =
     (if getProp s ''id'' = JStr stepId then setProp s ''next'' v # steps
      else s # setNext stepId v steps)"

definition enrichStep_ts :: "string \<Rightarrow> string \<Rightarrow> string \<Rightarrow> jsval" where
  "enrichStep_ts sid provider ty = JObj
     [(''id'', JStr sid), (''type'', JStr ''enrich''),
      (''params'', JObj [(''provider'', JStr provider), (''type'', JStr ty)]),
      (''next'', JNull)]"

definition collectStep_ts :: "PlaybookConfig \<Rightarrow> jsval" where
  "collectStep_ts config = JObj
     [(''id'', JStr ''collect_normalize''), (''type'', JStr ''collect_normalize''),
      (''params'', JObj [(''mapping'', JObj
          [(''sender'', JStr (sender (collect config))),
           (''recipient'', JStr (recipient (collect config))),
           (''subject'', JStr (subject (collect config))),
           (''urls'', JStr (urls (collect config))),
           (''attachment_hashes'', JStr (attachment_hashes (collect config))),
           (''src_ip'', JStr (CollectMapping.src_ip (collect config)))])]),
      (''next'', JNull)]"

text \<open>The \<open>forEach\<close> over the enrich ids: a step that is not the last one points to the
  next id, the last one to \<open>'evaluate'\<close>.\<close>

fun chainEnrich :: "string list \<Rightarrow> jsval list \<Rightarrow> jsval list" where
  "chainEnrich [] steps = steps"
| "chainEnrich [stepId] steps = setNext stepId (JStr ''evaluate'') steps"
| "chainEnrich (stepId # nextId # ids) steps =
     chainEnrich (nextId # ids) (setNext stepId (JStr nextId) steps)"

definition actionGroup_ts :: "string \<Rightarrow> ActionItem list \<Rightarrow> jsval" where
  "actionGroup_ts gid items = JObj
     [(''id'', JStr gid), (''type'', JStr ''action_group''),
      (''params'', JObj [(''actions'', JArr (map (\<lambda>a. JObj
          [(''action'', JStr (action a)),
           (''params'', JObj (map (\<lambda>(k, v). (k, JStr v)) (input a)))]) items))]),
      (''next'', JNull)]"

definition generateYaml_steps :: "PlaybookConfig \<Rightarrow> jsval list" where
  "generateYaml_steps config =
     (let ids = enrichStepIds config;
          steps = [collectStep_ts config] @
            (if vt_hash (enrich config) then [enrichStep_ts ''vt_hash'' ''virustotal'' ''hash''] else []) @
            (if vt_url (enrich config) then [enrichStep_ts ''vt_url'' ''virustotal'' ''url''] else []) @
            (if abuseipdb_geoip (enrich config)
             then [enrichStep_ts ''abuseipdb'' ''abuseipdb'' ''geoip''] else []);
          steps = setNext ''collect_normalize''
                    (if length ids > 0 then JStr (ids ! 0) else JStr ''evaluate'') steps;
          steps = chainEnrich ids steps
      in steps @
         [JObj [(''id'', JStr ''evaluate''), (''type'', JStr ''evaluate''),
                (''params'', JObj [(''expression'', JStr (expression (condition config)))]),
                (''true_next'', JStr ''high''), (''false_next'', JStr ''low'')]] @
         (if length (trueActions (actions config)) > 0
          then [actionGroup_ts ''high'' (trueActions (actions config))] else []) @
         (if length (falseActions (actions config)) > 0
          then [actionGroup_ts ''low'' (falseActions (actions config))] else []))"

subsection \<open>convertToYaml (pages/PlaybookBuilder.tsx)\<close>

definition indentStr :: "nat \<Rightarrow> string" where
  "indentStr indent = concat (replicate indent ''  '')"

text \<open>\<open>line.replace(/^  +/, '')\<close>: a run of two or more spaces at the start is removed.\<close>

definition stripIndent :: "string \<Rightarrow> string" where
  "stripIndent line =
     (if startsWith line ''  '' then dropWhile (\<lambda>c. c = CHR '' '') line else line)"

text \<open>\<open>s.replace(/"/g, '\\"')\<close> and \<open>s.replace(/\n/g, '\\n')\<close>\<close>

definition escapeQuotes :: "string \<Rightarrow> string" where
  "escapeQuotes s = concat (map (\<lambda>c. if c = CHR 0x22 then [CHR 0x5C, CHR 0x22] else [c]) s)"

definition escapeNewlines :: "string \<Rightarrow> string" where
  "escapeNewlines s = concat (map (\<lambda>c. if c = CHR 0x0A then [CHR 0x5C, CHR ''n''] else [c]) s)"

text \<open>The line or block written for a key whose value is a string.\<close>

definition yamlString :: "string \<Rightarrow> string \<Rightarrow> string \<Rightarrow> string" where
  "yamlString ind key strValue =
     (if includesStr strValue ''${'' \<and> \<not> includesStr strValue [CHR 0x0A]
      then ind @ key @ '': '' @ [CHR 0x22] @ escapeNewlines (escapeQuotes strValue) @
           [CHR 0x22, CHR 0x0A]
      else if includesStr strValue [CHR 0x0A]
      then ind @ key @ '': |'' @ [CHR 0x0A] @
           concat (map (\<lambda>line. ind @ ''  '' @ line @ [CHR 0x0A]) (splitOn (CHR 0x0A) strValue))
      else if includesStr strValue '':'' \<or> includesStr strValue ''|'' \<or> includesStr strValue ''&''
              \<or> includesStr strValue ''*'' \<or> includesStr strValue ''#''
      then ind @ key @ '': '' @ [CHR 0x22] @ escapeQuotes strValue @ [CHR 0x22, CHR 0x0A]
      else ind @ key @ '': '' @ strValue @ [CHR 0x0A])"

text \<open>
  The serializer. \<open>null\<close> and \<open>undefined\<close> give the empty string. An array item that is
  an object is serialized one level deeper, its non-blank lines are stripped of their
  indentation and written after \<open>- \<close>, the later ones behind the item's indentation; any
  other item is interpolated. An object writes one entry for each key, in order.
  Anything else is interpolated on a line of its own.
\<close>

fun convertToYaml :: "jsval \<Rightarrow> nat \<Rightarrow> string" where
  "convertToYaml JNull indent = []"
| "convertToYaml JUndefined indent = []"
| "convertToYaml (JArr items) indent =
     concat (map (\<lambda>item.
       if (case item of JArr xs \<Rightarrow> True | JObj kvs \<Rightarrow> True | _ \<Rightarrow> False)
       then indentStr indent @ ''- '' @
            (case filter (\<lambda>l. trim l \<noteq> []) (splitOn (CHR 0x0A) (convertToYaml item (indent + 1))) of
               [] \<Rightarrow> []
             | l # ls \<Rightarrow>
                 stripIndent l @ [CHR 0x0A] @
                 concat (map (\<lambda>line. indentStr indent @ ''  '' @ stripIndent line @ [CHR 0x0A])
                             (filter (\<lambda>l. trim l \<noteq> []) ls)))
       else indentStr indent @ ''- '' @ toStringJs item @ [CHR 0x0A]) items)"
| "convertToYaml (JObj kvs) indent =
     concat (map (\<lambda>(key, v).
       (case v of
          JNull \<Rightarrow> indentStr indent @ key @ '': null'' @ [CHR 0x0A]
        | JUndefined \<Rightarrow> indentStr indent @ key @ '': null'' @ [CHR 0x0A]
        | JArr xs \<Rightarrow> indentStr indent @ key @ '':'' @ [CHR 0x0A] @ convertToYaml v (indent + 1)
        | JObj ps \<Rightarrow> indentStr indent @ key @ '':'' @ [CHR 0x0A] @ convertToYaml v (indent + 1)
        | JStr s \<Rightarrow> yamlString (indentStr indent) key s
        | _ \<Rightarrow> indentStr indent @ key @ '': '' @ toStringJs v @ [CHR 0x0A])) kvs)"
| "convertToYaml v indent = toStringJs v @ [CHR 0x0A]"

definition generateInstanceYaml :: "PlaybookConfig \<Rightarrow> string" where
  "generateInstanceYaml config = convertToYaml (instanceStructure config) 0"

subsection \<open>generateTemplateYaml (pages/PlaybookBuilder.tsx)\<close>


















section \<open>Sample data\<close>

text \<open>The malware sample alert of the playbook page after normalization, a rule of each
  dialect (the first rule of the README, the sample rule of the YAML preview panel), and
  a conditions rule whose \<open>all\<close> list is empty.\<close>

definition malwareAlert :: alert where
  "malwareAlert = \<lparr>type = JStr ''Malware'', severity = JStr ''High'', machine = JStr ''PC-02'',
      src_ip = JStr ''192.168.1.100'', user = JStr ''system'', event_count = 1,
      timestamp = JStr ''2024-01-15T14:22:00Z'', raw = JObj []\<rparr>"


definition sampleIfRule :: jsval where
  "sampleIfRule = JObj
     [(''name'', JStr ''sample_rule''),
      (''if'', JObj [(''severity'', JStr ''High'')]),
      (''then'', JArr [JObj [(''action'', JStr ''firewall_block_ip''),
                             (''params'', JObj [(''ip_field'', JStr ''src_ip'')])]])]"

definition emptyAllRule :: jsval where
  "emptyAllRule = JObj
     [(''name'', JStr ''empty_all''),
      (''conditions'', JObj [(''all'', JArr [])]),
      (''actions'', JArr [JStr ''firewall.block_ip''])]"

section \<open>Readings of the event count\<close>



text \<open>Playbook configurations: the phishing alert of the builder mapped into the collect
  fields, with one, two or no enrichment enabled.\<close>

definition phishingConfig :: "bool \<Rightarrow> bool \<Rightarrow> bool \<Rightarrow> PlaybookConfig" where
  "phishingConfig h u a =
     \<lparr>name = ''Phishing Email Playbook'',
      collect = \<lparr>sender = ''attacker@evil.com'', recipient = ''victim@example.com'',
                 subject = ''Important invoice attached'', urls = [],
                 attachment_hashes = [], src_ip = ''203.0.113.45''\<rparr>,
      enrich = \<lparr>vt_hash = h, vt_url = u, abuseipdb_geoip = a\<rparr>,
      condition = \<lparr>expression = ''${steps.vt_hash.any_malicious == true}''\<rparr>,
      actions = \<lparr>trueActions = [\<lparr>id' = ''block'', action = ''firewall.block_ip'', input = []\<rparr>],
                 falseActions = []\<rparr>\<rparr>"

section \<open>Properties of the rule engines\<close>





subsection \<open>The if/then engine\<close>









subsection \<open>The conditions engine\<close>







text \<open>
  C3, as the code has it. A conditions rule whose \<open>conditions.all\<close> is an empty list
  matches every alert, whether \<open>conditions.any\<close> is present or not: the rule is added to
  the matches and its "Matched rule" line is logged. A rule does not match when
  \<open>conditions.all\<close> and \<open>conditions.any\<close> are both absent.
\<close>

theorem empty_all_matches_every_alert:
  assumes nn: "\<not> isNullish rule"
    and c: "conditions = jsOr (getProp rule ''conditions'') (JObj [])"
  shows "(getProp conditions ''all'' = JArr [] \<longrightarrow>
            ruleMatched_conditions normalized rule = Inr True \<and>
            ruleBody_conditions normalized rule st =
              (case actionsLogs normalized rule of
                 Inl e \<Rightarrow> Inl e
               | Inr acts \<Rightarrow>
                   Inr \<lparr>logs = logs st @ [MatchedRule (getProp rule ''name'')] @ acts,
                        matches = matches st @ [rule]\<rparr>)) \<and>
         (getProp conditions ''all'' = JUndefined \<and> getProp conditions ''any'' = JUndefined \<longrightarrow>
            ruleMatched_conditions normalized rule = Inr False \<and>
            ruleBody_conditions normalized rule st = Inr st)"
  using nn c by (simp add: ruleMatched_conditions_def ruleBody_conditions_def)

theorem empty_all_witness:
  "getProp (jsOr (getProp emptyAllRule ''conditions'') (JObj [])) ''all'' = JArr [] \<and>
   ruleMatched_conditions malwareAlert emptyAllRule = Inr True \<and>
   getProp (jsOr (getProp sampleIfRule ''conditions'') (JObj [])) ''all'' = JUndefined \<and>
   getProp (jsOr (getProp sampleIfRule ''conditions'') (JObj [])) ''any'' = JUndefined \<and>
   ruleMatched_conditions malwareAlert sampleIfRule = Inr False"
proof -
  have e: "getProp (jsOr (getProp emptyAllRule ''conditions'') (JObj [])) ''all'' = JArr []"
    by (simp add: emptyAllRule_def jsOr_def)
  have a: "getProp (jsOr (getProp sampleIfRule ''conditions'') (JObj [])) ''all'' = JUndefined"
    and b: "getProp (jsOr (getProp sampleIfRule ''conditions'') (JObj [])) ''any'' = JUndefined"
    by (simp_all add: sampleIfRule_def jsOr_def)
  have n1: "\<not> isNullish emptyAllRule" and n2: "\<not> isNullish sampleIfRule"
    by (simp_all add: emptyAllRule_def sampleIfRule_def isNullish_def)
  from empty_all_matches_every_alert[OF n1 refl, of malwareAlert]
       empty_all_matches_every_alert[OF n2 refl, of malwareAlert] e a b
  show ?thesis by simp
qed

text \<open>The claim as stated fails: the rule with an empty \<open>all\<close> list and no \<open>any\<close> is
  matched and logged.\<close>

theorem empty_all_counterexample:
  "evaluateRules_conditions malwareAlert [emptyAllRule] =
     Inr \<lparr>logs = [MatchedRule (JStr ''empty_all''),
                  ActionExecuted (JStr ''firewall.block_ip'') None],
          matches = [emptyAllRule]\<rparr>"
  by code_simp

subsection \<open>Two engines, one dialect each\<close>







section \<open>Properties of the normalizer\<close>


















text \<open>
  C6. The normalizer is meant to degrade to defaults and never throw. It throws on a
  severity that is truthy and not a string (\<open>trim\<close> is called on it), here the number 5,
  and on a payload that is \<open>null\<close>.
\<close>

theorem normalize_throws_on_numeric_severity:
  "normalizeSplunkAlert (JObj [(''type'', JStr ''Malware''), (''severity'', JNum 5)])
     = Inl TypeError \<and>
   normalizeSplunkAlert JNull = Inl TypeError"
  by code_simp

section \<open>Properties of the artifact generator\<close>

lemma findStep_collect:
  "findStep (instanceSteps config) ''collect'' = Some (collectStep config)"
  by (simp add: findStep_def instanceSteps_def collectStep_def)

lemma enrichSteps_next:
  "s \<in> set (enrichSteps config) \<Longrightarrow> getProp s ''next'' = JStr ''evaluate''"
  by (auto simp: enrichSteps_def vtHashStep_def vtUrlStep_def abuseipdbStep_def
      split: if_splits)

lemma enrichSteps_ids:
  "map (\<lambda>s. getProp s ''id'') (enrichSteps config) = map JStr (enrichStepIds config)"
  by (simp add: enrichSteps_def enrichStepIds_def vtHashStep_def vtUrlStep_def
      abuseipdbStep_def)

lemma generateYaml_steps_cases:
  "generateYaml_steps config =
     (let h = vt_hash (enrich config); u = vt_url (enrich config);
          a = abuseipdb_geoip (enrich config)
      in [setProp (collectStep_ts config) ''next''
            (JStr (if h then ''vt_hash'' else if u then ''vt_url''
                   else if a then ''abuseipdb'' else ''evaluate''))] @
         (if h then [setProp (enrichStep_ts ''vt_hash'' ''virustotal'' ''hash'') ''next''
                       (JStr (if u then ''vt_url'' else if a then ''abuseipdb'' else ''evaluate''))]
          else []) @
         (if u then [setProp (enrichStep_ts ''vt_url'' ''virustotal'' ''url'') ''next''
                       (JStr (if a then ''abuseipdb'' else ''evaluate''))]
          else []) @
         (if a then [setProp (enrichStep_ts ''abuseipdb'' ''abuseipdb'' ''geoip'') ''next''
                       (JStr ''evaluate'')]
          else []) @
         [JObj [(''id'', JStr ''evaluate''), (''type'', JStr ''evaluate''),
                (''params'', JObj [(''expression'', JStr (expression (condition config)))]),
                (''true_next'', JStr ''high''), (''false_next'', JStr ''low'')]] @
         (if length (trueActions (actions config)) > 0
          then [actionGroup_ts ''high'' (trueActions (actions config))] else []) @
         (if length (falseActions (actions config)) > 0
          then [actionGroup_ts ''low'' (falseActions (actions config))] else []))"
  by (cases "vt_hash (enrich config)"; cases "vt_url (enrich config)";
      cases "abuseipdb_geoip (enrich config)")
     (simp_all add: generateYaml_steps_def enrichStepIds_def collectStep_ts_def
        enrichStep_ts_def Let_def)

text \<open>
  C4, as the code has it. In the built instance (generateInstanceYaml) the collect step's
  \<open>next\<close> is the ordered list of all enabled enrich step ids whenever a flag is enabled,
  a one-element list when exactly one is, and \<open>"evaluate"\<close> when none is; the enrich
  steps are those ids in order, and the \<open>next\<close> of each is \<open>"evaluate"\<close>. In
  utils/generateYaml.ts the \<open>next\<close> of the collect step is the first enabled enrich id
  alone, or \<open>"evaluate"\<close>, and the last enrich step's \<open>next\<close> is \<open>"evaluate"\<close>.
\<close>

theorem collect_next_is_list_of_enabled_enrich_ids:
  "enrichStepIds config =
     map fst (filter snd [(''vt_hash'', vt_hash (enrich config)),
                          (''vt_url'', vt_url (enrich config)),
                          (''abuseipdb'', abuseipdb_geoip (enrich config))]) \<and>
   (\<exists>c. findStep (instanceSteps config) ''collect'' = Some c \<and>
        getProp c ''next'' =
          (if enrichStepIds config = [] then JStr ''evaluate''
           else JArr (map JStr (enrichStepIds config)))) \<and>
   (\<exists>rest. instanceSteps config = collectStep config # enrichSteps config @ rest) \<and>
   map (\<lambda>s. getProp s ''id'') (enrichSteps config) = map JStr (enrichStepIds config) \<and>
   (\<forall>s \<in> set (enrichSteps config). getProp s ''next'' = JStr ''evaluate'') \<and>
   (\<exists>c. findStep (generateYaml_steps config) ''collect_normalize'' = Some c \<and>
        getProp c ''next'' =
          (if enrichStepIds config = [] then JStr ''evaluate''
           else JStr (hd (enrichStepIds config)))) \<and>
   (enrichStepIds config \<noteq> [] \<longrightarrow>
      (\<exists>s. findStep (generateYaml_steps config) (last (enrichStepIds config)) = Some s \<and>
           getProp s ''next'' = JStr ''evaluate''))"
proof (intro conjI)
  show "enrichStepIds config =
     map fst (filter snd [(''vt_hash'', vt_hash (enrich config)),
                          (''vt_url'', vt_url (enrich config)),
                          (''abuseipdb'', abuseipdb_geoip (enrich config))])"
    by (simp add: enrichStepIds_def)
  show "\<exists>c. findStep (instanceSteps config) ''collect'' = Some c \<and>
        getProp c ''next'' =
          (if enrichStepIds config = [] then JStr ''evaluate''
           else JArr (map JStr (enrichStepIds config)))"
    by (simp add: findStep_collect) (simp add: collectStep_def)
  show "\<exists>rest. instanceSteps config = collectStep config # enrichSteps config @ rest"
    by (simp add: instanceSteps_def)
  show "map (\<lambda>s. getProp s ''id'') (enrichSteps config) = map JStr (enrichStepIds config)"
    by (rule enrichSteps_ids)
  show "\<forall>s \<in> set (enrichSteps config). getProp s ''next'' = JStr ''evaluate''"
    by (simp add: enrichSteps_next)
  show "\<exists>c. findStep (generateYaml_steps config) ''collect_normalize'' = Some c \<and>
        getProp c ''next'' =
          (if enrichStepIds config = [] then JStr ''evaluate''
           else JStr (hd (enrichStepIds config)))"
    by (simp add: generateYaml_steps_cases findStep_def Let_def collectStep_ts_def
        enrichStepIds_def)
  show "enrichStepIds config \<noteq> [] \<longrightarrow>
      (\<exists>s. findStep (generateYaml_steps config) (last (enrichStepIds config)) = Some s \<and>
           getProp s ''next'' = JStr ''evaluate'')"
    by (cases "vt_hash (enrich config)"; cases "vt_url (enrich config)";
        cases "abuseipdb_geoip (enrich config)")
       (simp_all add: generateYaml_steps_cases findStep_def Let_def collectStep_ts_def
          enrichStep_ts_def enrichStepIds_def)
qed

text \<open>With the hash and URL lookups enabled the collect step of the instance fans out to
  both, and that of generateYaml.ts points to the first; the last enrich step points to
  \<open>"evaluate"\<close>.\<close>

theorem collect_next_witness:
  "enrichStepIds (phishingConfig True True False) = [''vt_hash'', ''vt_url''] \<and>
   enrichStepIds (phishingConfig True True False) \<noteq> [] \<and>
   vtUrlStep \<in> set (enrichSteps (phishingConfig True True False)) \<and>
   getProp vtUrlStep ''next'' = JStr ''evaluate'' \<and>
   map_option (\<lambda>c. getProp c ''next'')
     (findStep (instanceSteps (phishingConfig True True False)) ''collect'')
     = Some (JArr [JStr ''vt_hash'', JStr ''vt_url'']) \<and>
   map_option (\<lambda>c. getProp c ''next'')
     (findStep (generateYaml_steps (phishingConfig True True False)) ''vt_url'')
     = Some (JStr ''evaluate'')"
proof -
  have ids: "enrichStepIds (phishingConfig True True False) = [''vt_hash'', ''vt_url'']"
    by (simp add: enrichStepIds_def phishingConfig_def)
  have mem: "vtUrlStep \<in> set (enrichSteps (phishingConfig True True False))"
    by (simp add: enrichSteps_def phishingConfig_def)
  note main = collect_next_is_list_of_enabled_enrich_ids[of "phishingConfig True True False"]
  from main ids obtain c where
    c: "findStep (instanceSteps (phishingConfig True True False)) ''collect'' = Some c"
       "getProp c ''next'' = JArr [JStr ''vt_hash'', JStr ''vt_url'']"
    by auto
  from main mem have n: "getProp vtUrlStep ''next'' = JStr ''evaluate''"
    by blast
  from main ids obtain s where
    s: "findStep (generateYaml_steps (phishingConfig True True False)) ''vt_url'' = Some s"
       "getProp s ''next'' = JStr ''evaluate''"
    by auto
  from ids mem c n s show ?thesis
    by simp
qed

text \<open>The claim as stated fails in both generators. With one flag enabled the instance's
  collect step has a one-element list as \<open>next\<close>, not the single id; with two flags
  enabled the collect step of generateYaml.ts has the first id alone, not the list.\<close>

theorem collect_next_counterexample:
  "map_option (\<lambda>c. getProp c ''next'')
     (findStep (instanceSteps (phishingConfig True False False)) ''collect'')
     = Some (JArr [JStr ''vt_hash'']) \<and>
   map_option (\<lambda>c. getProp c ''next'')
     (findStep (generateYaml_steps (phishingConfig True True False)) ''collect_normalize'')
     = Some (JStr ''vt_hash'')"
  by code_simp

section \<open>Properties of the expression evaluator\<close>

lemma tryCls_last: "tryCls lo k [] prev s = (if k < lo then None else Some [k])"
  by (subst tryCls.simps) simp

lemma matchAt_barePathRe:
  "matchAt barePathRe prev s =
     (if atWordBoundary prev s \<and> startsWith s ''steps.'' \<and> takeWhile pathChar (drop 6 s) \<noteq> []
      then Some [0, 6, length (takeWhile pathChar (drop 6 s))] else None)"
  by (simp add: barePathRe_def tryCls_last Let_def eval_nat_numeral)

lemma matchAt_bareStepsRe:
  "matchAt bareStepsRe prev s =
     (if atWordBoundary prev s \<and> startsWith s ''steps.'' \<and> takeWhile isWordChar (drop 6 s) \<noteq> []
      then Some [0, 6, length (takeWhile isWordChar (drop 6 s))] else None)"
  by (simp add: bareStepsRe_def tryCls_last Let_def eval_nat_numeral)

lemma matchAt_wrappedStepsRe:
  "matchAt wrappedStepsRe prev s = (if startsWith s ''${steps.'' then Some [8] else None)"
  by (simp add: wrappedStepsRe_def)

lemma word_run_path_run:
  "takeWhile isWordChar xs \<noteq> [] \<Longrightarrow> takeWhile pathChar xs \<noteq> []"
  by (cases xs) (auto simp: pathChar_def split: if_splits)

lemma bare_match_path_match:
  "matchAt bareStepsRe prev s \<noteq> None \<Longrightarrow> matchAt barePathRe prev s \<noteq> None"
  by (auto simp: matchAt_bareStepsRe matchAt_barePathRe word_run_path_run split: if_splits)

lemma scan_has_match:
  "testFrom bareStepsRe (prevOf rb) s \<Longrightarrow>
     \<exists>b m ls a. Matched b m ls a \<in> set (scan barePathRe rb s)"
proof (induction s arbitrary: rb)
  case Nil
  then show ?case
    by (simp add: matchAt_bareStepsRe startsWith_def)
next
  case (Cons c cs)
  show ?case
  proof (cases "matchAt barePathRe (prevOf rb) (c # cs)")
    case (Some ls)
    have "\<exists>segs. scan barePathRe rb (c # cs) =
        Matched (rev rb) (take (sum_list ls) (c # cs)) ls (drop (sum_list ls) (c # cs)) # segs"
      by (subst scan.simps) (simp add: Some Let_def)
    then obtain segs where "scan barePathRe rb (c # cs) =
        Matched (rev rb) (take (sum_list ls) (c # cs)) ls (drop (sum_list ls) (c # cs)) # segs"
      by blast
    then have "Matched (rev rb) (take (sum_list ls) (c # cs)) ls (drop (sum_list ls) (c # cs))
        \<in> set (scan barePathRe rb (c # cs))"
      by simp
    then show ?thesis
      by blast
  next
    case None
    with bare_match_path_match[of "prevOf rb" "c # cs"]
    have "matchAt bareStepsRe (prevOf rb) (c # cs) = None"
      by (cases "matchAt bareStepsRe (prevOf rb) (c # cs)") simp_all
    with Cons.prems have "testFrom bareStepsRe (prevOf (c # rb)) cs"
      by (simp add: prevOf_def)
    from Cons.IH[OF this] obtain b m ls a where
      "Matched b m ls a \<in> set (scan barePathRe (c # rb) cs)"
      by blast
    with None show ?thesis
      by (subst scan.simps) auto
  qed
qed

lemma testFrom_wrapped_infix:
  "testFrom wrappedStepsRe prev (xs @ ''${steps.'' @ ys)"
proof (induction xs arbitrary: prev)
  case Nil
  show ?case
    by (simp add: matchAt_wrappedStepsRe startsWith_def)
next
  case (Cons x xs)
  then show ?case
    by simp
qed

lemma replaced_has_prefix:
  assumes "Matched b m ls a \<in> set segs"
  shows "\<exists>xs ys. concat (map (\<lambda>seg. case seg of Skipped c \<Rightarrow> [c]
                                   | Matched b m ls a \<Rightarrow> p @ g b m ls a) segs)
                = xs @ p @ ys"
proof -
  from assms obtain pre post where "segs = pre @ Matched b m ls a # post"
    by (auto simp: in_set_conv_decomp)
  then have "concat (map (\<lambda>seg. case seg of Skipped c \<Rightarrow> [c]
                                   | Matched b m ls a \<Rightarrow> p @ g b m ls a) segs)
     = concat (map (\<lambda>seg. case seg of Skipped c \<Rightarrow> [c]
                                   | Matched b m ls a \<Rightarrow> p @ g b m ls a) pre) @ p @
       (g b m ls a @ concat (map (\<lambda>seg. case seg of Skipped c \<Rightarrow> [c]
                                   | Matched b m ls a \<Rightarrow> p @ g b m ls a) post))"
    by simp
  then show ?thesis
    by blast
qed

lemma normalizeBareSteps_wraps:
  assumes "test bareStepsRe e" and "\<not> test wrappedStepsRe e"
  shows "test wrappedStepsRe (normalizeBareSteps e)"
proof -
  from assms(1) obtain b m ls a where "Matched b m ls a \<in> set (scan barePathRe [] e)"
    using scan_has_match[of "[]" e] by (auto simp: test_def prevOf_def)
  from replaced_has_prefix[OF this, of "''${steps.''" "\<lambda>b m ls a. atomText ls m 2 @ ''}''"]
  obtain xs ys where
    "replaceAll barePathRe (\<lambda>b m ls a. ''${steps.'' @ atomText ls m 2 @ ''}'') e
       = xs @ ''${steps.'' @ ys"
    unfolding replaceAll_def by blast
  moreover have "normalizeBareSteps e =
      replaceAll barePathRe (\<lambda>b m ls a. ''${steps.'' @ atomText ls m 2 @ ''}'') e"
    unfolding normalizeBareSteps_def Let_def using assms by (simp only: simp_thms if_True)
  ultimately have "normalizeBareSteps e = xs @ ''${steps.'' @ ys"
    by (simp only:)
  then show ?thesis
    unfolding test_def by (simp only: testFrom_wrapped_infix)
qed

lemma normalizeBareSteps_idem: "normalizeBareSteps (normalizeBareSteps e) = normalizeBareSteps e"
proof (cases "test bareStepsRe e \<and> \<not> test wrappedStepsRe e")
  case True
  then have "test wrappedStepsRe (normalizeBareSteps e)"
    by (simp add: normalizeBareSteps_wraps)
  then show ?thesis
    by (simp add: normalizeBareSteps_def[of "normalizeBareSteps e"])
next
  case False
  then have "normalizeBareSteps e = e"
    by (auto simp: normalizeBareSteps_def)
  then show ?thesis
    by simp
qed


lemma evaluateFrom_expression:
  assumes "fst (substituteAll steps enrichConfig (scan variableRe [] evaluated0)
             \<lparr>missingVars = [], replacedVars = [], missingEnrichSteps = []\<rparr>) \<noteq> []"
  shows "evaluateFrom jsEval e1 evaluated0 steps enrichConfig =
         evaluateFrom jsEval e2 evaluated0 steps enrichConfig"
proof -
  obtain t st where eq: "substituteAll steps enrichConfig (scan variableRe [] evaluated0)
             \<lparr>missingVars = [], replacedVars = [], missingEnrichSteps = []\<rparr> = (t, st)"
    by (cases "substituteAll steps enrichConfig (scan variableRe [] evaluated0)
             \<lparr>missingVars = [], replacedVars = [], missingEnrichSteps = []\<rparr>") 
  with assms have "t \<noteq> []"
    by simp
  then have eo: "evaluatedOr t e1 = evaluatedOr t e2"
    by (simp add: evaluatedOr_def)
  show ?thesis
    unfolding evaluateFrom_def eq prod.case Let_def eo ..
qed

lemma bare_and_wrapped_normalize:
  "normalizeBareSteps (stripWrapper (trim ''steps.abuseipdb.score >= 85''))
     = ''${steps.abuseipdb.score} >= 85''"
  "normalizeBareSteps (stripWrapper (trim ''${steps.abuseipdb.score >= 85}''))
     = ''${steps.abuseipdb.score} >= 85''"
  by code_simp+

lemma scan_score_expression:
  "scan variableRe [] ''${steps.abuseipdb.score} >= 85'' =
     [Matched [] ''${steps.abuseipdb.score}'' [8, 15, 1] '' >= 85'',
      Skipped CHR '' '', Skipped CHR ''>'', Skipped CHR ''='', Skipped CHR '' '',
      Skipped CHR ''8'', Skipped CHR ''5'']"
  by code_simp

text \<open>
  C7. The bare expression \<open>steps.abuseipdb.score >= 85\<close> and the wrapped expression
  \<open>${steps.abuseipdb.score >= 85}\<close> give the same result for every step context, every
  enrichment configuration and every behaviour of the engine. The rewrite of bare
  references is idempotent, and it leaves a text that already holds a wrapped reference
  as it is.
\<close>

theorem rewrapping_is_idempotent:
  "evaluateExpressionUnified jsEval ''steps.abuseipdb.score >= 85'' steps enrichConfig =
   evaluateExpressionUnified jsEval ''${steps.abuseipdb.score >= 85}'' steps enrichConfig \<and>
   normalizeBareSteps (normalizeBareSteps e) = normalizeBareSteps e \<and>
   (test wrappedStepsRe e \<longrightarrow> normalizeBareSteps e = e)"
proof (intro conjI)
  have ne: "fst (substituteAll steps enrichConfig
               (scan variableRe [] ''${steps.abuseipdb.score} >= 85'')
               \<lparr>missingVars = [], replacedVars = [], missingEnrichSteps = []\<rparr>) \<noteq> []"
    unfolding scan_score_expression by (simp split: prod.splits)
  show "evaluateExpressionUnified jsEval ''steps.abuseipdb.score >= 85'' steps enrichConfig =
        evaluateExpressionUnified jsEval ''${steps.abuseipdb.score >= 85}'' steps enrichConfig"
    unfolding evaluateExpressionUnified_def bare_and_wrapped_normalize
    using evaluateFrom_expression[OF ne] by simp
  show "normalizeBareSteps (normalizeBareSteps e) = normalizeBareSteps e"
    by (rule normalizeBareSteps_idem)
  show "test wrappedStepsRe e \<longrightarrow> normalizeBareSteps e = e"
    by (simp add: normalizeBareSteps_def)
qed

text \<open>A text with a wrapped and a bare reference is left unchanged, and so is the
  rewritten bare expression.\<close>

theorem rewrapping_witness:
  "test wrappedStepsRe ''${steps.vt_hash.max_score} > steps.vt_url.max_score'' \<and>
   normalizeBareSteps ''${steps.vt_hash.max_score} > steps.vt_url.max_score''
     = ''${steps.vt_hash.max_score} > steps.vt_url.max_score'' \<and>
   normalizeBareSteps ''steps.abuseipdb.score >= 85'' = ''${steps.abuseipdb.score} >= 85'' \<and>
   normalizeBareSteps (normalizeBareSteps ''steps.abuseipdb.score >= 85'')
     = ''${steps.abuseipdb.score} >= 85''"
proof -
  have t: "test wrappedStepsRe ''${steps.vt_hash.max_score} > steps.vt_url.max_score''"
    by code_simp
  have n: "normalizeBareSteps ''steps.abuseipdb.score >= 85'' = ''${steps.abuseipdb.score} >= 85''"
    by code_simp
  from rewrapping_is_idempotent[of _ _ _ "''${steps.vt_hash.max_score} > steps.vt_url.max_score''"]
       rewrapping_is_idempotent[of _ _ _ "''steps.abuseipdb.score >= 85''"] t n
  show ?thesis
    by simp
qed

text \<open>
  C1. For \<open>${steps.vt_url.max_score >= 70}\<close>, no step results and the URL enrichment
  disabled, the reference is replaced by \<open>null\<close> and the text \<open>null >= 70\<close> goes to the
  engine: the result is a success with the engine's value (\<open>false\<close> in JavaScript), or
  the engine's own error. The "Unresolved variables" failure and its hint naming
  "VirusTotal URL reputation" are not produced, although the hint was collected.
\<close>

lemma missing_reference_substituted:
  "substituteAll (JObj []) (JObj [(''vt_url'', JBool False)])
     (scan variableRe [] (normalizeBareSteps (stripWrapper (trim ''${steps.vt_url.max_score >= 70}''))))
     \<lparr>missingVars = [], replacedVars = [], missingEnrichSteps = []\<rparr>
   = (''null >= 70'',
      \<lparr>missingVars = [''${steps.vt_url.max_score}''], replacedVars = [],
       missingEnrichSteps = [''VirusTotal URL reputation'']\<rparr>)"
  by code_simp

lemma no_token_left:
  "matchAll variableRe ''null >= 70'' = []" "matchAll bareStepsRe ''null >= 70'' = []"
  by code_simp+

theorem unresolved_variable_not_reported:
  "evaluateExpressionUnified jsEval ''${steps.vt_url.max_score >= 70}'' (JObj [])
     (JObj [(''vt_url'', JBool False)]) =
     (case jsEval ''null >= 70'' of
        Inr result \<Rightarrow> ExprSuccess result ''null >= 70'' [''${steps.vt_url.max_score}''] []
      | Inl message \<Rightarrow>
          ExprFailure (''Expression evaluation failed: '' @ message @
                       ''. Evaluated expression: null >= 70'') ''null >= 70'')"
  unfolding evaluateExpressionUnified_def evaluateFrom_def missing_reference_substituted
  by (simp add: no_token_left evaluatedOr_def split: sum.splits)

section \<open>Properties of the serializer and the anonymizer\<close>




end
